theory Spec2Isabelle
  imports Main "HOL-Library.Multiset"
begin

section \<open>Server store (server/database.py)\<close>

text \<open>
  The SQLite tables of \<^verbatim>\<open>Database._create_tables\<close> are lists of rows in insertion
  (rowid) order; a nullable column is an \<open>option\<close>. Row ids are natural numbers: the
  tables are \<^verbatim>\<open>INTEGER PRIMARY KEY AUTOINCREMENT\<close> and no row is ever deleted, so
  the id handed to an inserted row is one more than the largest id in the table.
  Timestamps are read from the clock in the source; here the caller passes \<open>now\<close>.
  A statement fails only where a UNIQUE constraint of the schema rejects it; then sqlite3
  raises IntegrityError and the operation returns \<open>Inl\<close>.
  The \<^verbatim>\<open>tags\<close> and \<^verbatim>\<open>expected_exit_codes\<close> columns hold
  \<^verbatim>\<open>json.dumps\<close> of a list; the rows keep the decoded list.
\<close>

record computer =
  c_id :: nat
  c_hostname :: string
  c_os :: "string option"
  c_arch :: "string option"
  c_tags :: "string list"
  c_last_check_in :: "string option"
  c_client_version :: "string option"
  c_token :: "string option"
  c_token_revoked :: int

record package =
  p_id :: nat
  p_name :: string
  p_version :: string
  p_platform :: string
  p_download_url :: "string option"
  p_sha256 :: "string option"
  p_install_cmd :: "string option"
  p_uninstall_cmd :: "string option"
  p_silent_args :: "string option"
  p_precheck_cmd :: "string option"
  p_postcheck_cmd :: "string option"
  p_expected_exit_codes :: "int list option"

record assignment =
  a_id :: nat
  a_computer_id :: nat
  a_package_id :: nat
  a_desired_state :: string
  a_created_at :: "string option"
  a_updated_at :: "string option"

record job =
  j_id :: nat
  j_computer_id :: nat
  j_package_id :: nat
  j_action :: string
  j_status :: string
  j_started_at :: "string option"
  j_finished_at :: "string option"
  j_rc :: "int option"
  j_stdout_tail :: "string option"
  j_stderr_tail :: "string option"
  j_attempts :: int

record database =
  computers :: "computer list"
  packages :: "package list"
  assignments :: "assignment list"
  jobs :: "job list"

definition empty_db :: database where
  "empty_db = \<lparr>computers = [], packages = [], assignments = [], jobs = []\<rparr>"

text \<open>\<^verbatim>\<open>cur.lastrowid\<close> of an insert into a table whose ids are \<open>ids\<close>.\<close>

definition lastrowid :: "nat list \<Rightarrow> nat" where
  "lastrowid ids = Suc (fold max ids 0)"

text \<open>Python's \<^verbatim>\<open>x or ""\<close> on an optional string.\<close>

definition or_empty :: "string option \<Rightarrow> string" where
  "or_empty x = (case x of None \<Rightarrow> [] | Some s \<Rightarrow> s)"

text \<open>SQL \<^verbatim>\<open>COALESCE(?, col)\<close>.\<close>

definition coalesce :: "'a option \<Rightarrow> 'a option \<Rightarrow> 'a option" where
  "coalesce new old = (case new of None \<Rightarrow> old | Some v \<Rightarrow> Some v)"

subsection \<open>Computers\<close>

definition get_computer :: "database \<Rightarrow> nat \<Rightarrow> computer option" where
  "get_computer db cid = find (\<lambda>c. c_id c = cid) (computers db)"

definition get_computer_by_hostname :: "database \<Rightarrow> string \<Rightarrow> computer option" where
  "get_computer_by_hostname db hostname = find (\<lambda>c. c_hostname c = hostname) (computers db)"

text \<open>
  \<^verbatim>\<open>create_computer\<close>: the insert violates \<^verbatim>\<open>hostname TEXT UNIQUE\<close> when the
  hostname is taken; sqlite3 raises IntegrityError (\<open>Inl\<close>) and the table is unchanged.
\<close>

definition create_computer ::
  "database \<Rightarrow> string \<Rightarrow> string \<Rightarrow> string \<Rightarrow> string list \<Rightarrow> string + (database \<times> nat)" where
  "create_computer db hostname os_name arch tags =
     (if hostname \<in> set (map c_hostname (computers db))
      then Inl ''UNIQUE constraint failed: computers.hostname''
      else
        let cid = lastrowid (map c_id (computers db)) in
        Inr (db\<lparr>computers := computers db @
               [\<lparr>c_id = cid, c_hostname = hostname, c_os = Some os_name, c_arch = Some arch,
                 c_tags = tags, c_last_check_in = None, c_client_version = None,
                 c_token = None, c_token_revoked = 0\<rparr>]\<rparr>, cid))"

text \<open>
  \<^verbatim>\<open>set_token_and_meta\<close>: one UPDATE of the rows with the given id. The
  \<^verbatim>\<open>token TEXT UNIQUE\<close> constraint makes it fail (IntegrityError, nothing written)
  when a row is updated and another machine already holds the token.
\<close>

definition set_token_and_meta ::
  "database \<Rightarrow> nat \<Rightarrow> string \<Rightarrow> string option \<Rightarrow> string option \<Rightarrow> string option
     \<Rightarrow> string + database" where
  "set_token_and_meta db cid token os_name arch client_version =
     (if (\<exists>c \<in> set (computers db). c_id c = cid) \<and>
         (\<exists>c \<in> set (computers db). c_id c \<noteq> cid \<and> c_token c = Some token)
      then Inl ''UNIQUE constraint failed: computers.token''
      else Inr (db\<lparr>computers :=
        map (\<lambda>c. if c_id c = cid
                  then c\<lparr>c_token := Some token,
                         c_os := coalesce os_name (c_os c),
                         c_arch := coalesce arch (c_arch c),
                         c_client_version := coalesce client_version (c_client_version c)\<rparr>
                  else c) (computers db)\<rparr>))"

definition update_last_check_in :: "database \<Rightarrow> string \<Rightarrow> nat \<Rightarrow> database" where
  "update_last_check_in db now cid =
     db\<lparr>computers :=
        map (\<lambda>c. if c_id c = cid then c\<lparr>c_last_check_in := Some now\<rparr> else c) (computers db)\<rparr>"

subsection \<open>Packages\<close>

type_synonym url = string
type_synonym hex = string
type_synonym command = string

definition create_package ::
  "database \<Rightarrow> string \<Rightarrow> string \<Rightarrow> string \<Rightarrow> url \<Rightarrow> hex \<Rightarrow> command \<Rightarrow> command
     \<Rightarrow> string \<Rightarrow> command \<Rightarrow> command \<Rightarrow> int list \<Rightarrow> database \<times> nat" where
  "create_package db name version platform download_url sha256 install_cmd uninstall_cmd
       silent_args precheck_cmd postcheck_cmd expected_exit_codes =
     (let pid = lastrowid (map p_id (packages db)) in
      (db\<lparr>packages := packages db @
          [\<lparr>p_id = pid, p_name = name, p_version = version, p_platform = platform,
            p_download_url = Some download_url, p_sha256 = Some sha256,
            p_install_cmd = Some install_cmd, p_uninstall_cmd = Some uninstall_cmd,
            p_silent_args = Some silent_args, p_precheck_cmd = Some precheck_cmd,
            p_postcheck_cmd = Some postcheck_cmd,
            p_expected_exit_codes = Some expected_exit_codes\<rparr>]\<rparr>, pid))"

subsection \<open>Jobs\<close>

text \<open>\<^verbatim>\<open>schedule_job\<close> inserts a Pending job; it looks at no existing row.\<close>

definition schedule_job :: "database \<Rightarrow> nat \<Rightarrow> nat \<Rightarrow> string \<Rightarrow> database \<times> nat" where
  "schedule_job db computer_id package_id action =
     (let jid = lastrowid (map j_id (jobs db)) in
      (db\<lparr>jobs := jobs db @
          [\<lparr>j_id = jid, j_computer_id = computer_id, j_package_id = package_id,
            j_action = action, j_status = ''Pending'', j_started_at = None,
            j_finished_at = None, j_rc = None, j_stdout_tail = None, j_stderr_tail = None,
            j_attempts = 0\<rparr>]\<rparr>, jid))"

definition get_job :: "database \<Rightarrow> nat \<Rightarrow> job option" where
  "get_job db job_id = find (\<lambda>j. j_id j = job_id) (jobs db)"

text \<open>
  \<^verbatim>\<open>update_job_status\<close>. The events endpoint passes \<^verbatim>\<open>event.get("phase")\<close>, which
  is \<^verbatim>\<open>None\<close> when the key is missing, so the phase is optional here.
  \<^verbatim>\<open>status or "Succeeded"\<close> takes the default for \<^verbatim>\<open>None\<close> and for the empty string.
\<close>

definition final_status :: "string option \<Rightarrow> string" where
  "final_status status =
     (case status of None \<Rightarrow> ''Succeeded'' | Some s \<Rightarrow> if s = [] then ''Succeeded'' else s)"

text \<open>
  An SQLite INTEGER has 64 bits, signed. Python's ints are unbounded, and
  \<^verbatim>\<open>conn.execute\<close> raises \<^verbatim>\<open>OverflowError\<close> while it binds a parameter outside that
  range, before the statement runs. The result code of a \<^verbatim>\<open>completed\<close> event is such a
  parameter (\<^verbatim>\<open>None\<close> is bound as NULL). Job ids are row ids here, the naturals that
  \<^verbatim>\<open>lastrowid\<close> hands out, and lie in the range.
\<close>

definition sqlite_integer :: "int \<Rightarrow> bool" where
  "sqlite_integer i = (- (2 ^ 63) \<le> i \<and> i < 2 ^ 63)"

definition bindable :: "int option \<Rightarrow> bool" where
  "bindable rc = (case rc of None \<Rightarrow> True | Some r \<Rightarrow> sqlite_integer r)"

text \<open>
  The result is \<open>Inl\<close> with the message of the exception when the UPDATE of the
  \<^verbatim>\<open>completed\<close> branch raises; no row has been written then. The \<^verbatim>\<open>start\<close> branch binds
  the time stamp and the job id only, and any other phase executes no statement.
\<close>

definition update_job_status ::
  "database \<Rightarrow> string \<Rightarrow> nat \<Rightarrow> string option \<Rightarrow> string option \<Rightarrow> int option
     \<Rightarrow> string option \<Rightarrow> string option \<Rightarrow> string + database" where
  "update_job_status db now job_id phase status rc stdout_tail stderr_tail =
     (if phase = Some ''start'' then
        Inr (db\<lparr>jobs := map (\<lambda>j. if j_id j = job_id
                             then j\<lparr>j_status := ''InProgress'', j_started_at := Some now,
                                    j_attempts := j_attempts j + 1\<rparr>
                             else j) (jobs db)\<rparr>)
      else if phase = Some ''completed'' then
        if bindable rc then
          Inr (db\<lparr>jobs := map (\<lambda>j. if j_id j = job_id
                             then j\<lparr>j_status := final_status status, j_finished_at := Some now,
                                    j_rc := rc, j_stdout_tail := stdout_tail,
                                    j_stderr_tail := stderr_tail\<rparr>
                             else j) (jobs db)\<rparr>)
        else Inl ''Python int too large to convert to SQLite INTEGER''
      else Inr db)"

text \<open>The store after a call that may raise: an exception leaves the rows as they were.\<close>

definition store_after :: "database \<Rightarrow> string + database \<Rightarrow> database" where
  "store_after db r = (case r of Inl e \<Rightarrow> db | Inr db' \<Rightarrow> db')"

subsection \<open>Assignments\<close>

definition set_assignment :: "database \<Rightarrow> string \<Rightarrow> nat \<Rightarrow> nat \<Rightarrow> string \<Rightarrow> database \<times> nat" where
  "set_assignment db now computer_id package_id desired_state =
     (case find (\<lambda>a. a_computer_id a = computer_id \<and> a_package_id a = package_id)
             (assignments db) of
        Some row \<Rightarrow>
          (let assignment_id = a_id row in
           if a_desired_state row \<noteq> desired_state then
             (let db1 = db\<lparr>assignments :=
                    map (\<lambda>a. if a_id a = assignment_id
                              then a\<lparr>a_desired_state := desired_state, a_updated_at := Some now\<rparr>
                              else a) (assignments db)\<rparr> in
              if desired_state = ''install'' \<or> desired_state = ''uninstall''
              then (fst (schedule_job db1 computer_id package_id desired_state), assignment_id)
              else (db1, assignment_id))
           else (db, assignment_id))
      | None \<Rightarrow>
          (let assignment_id = lastrowid (map a_id (assignments db));
               db1 = db\<lparr>assignments := assignments db @
                      [\<lparr>a_id = assignment_id, a_computer_id = computer_id,
                        a_package_id = package_id, a_desired_state = desired_state,
                        a_created_at = Some now, a_updated_at = Some now\<rparr>]\<rparr> in
           if desired_state = ''install'' \<or> desired_state = ''uninstall''
           then (fst (schedule_job db1 computer_id package_id desired_state), assignment_id)
           else (db1, assignment_id)))"

subsection \<open>Plan computation\<close>

text \<open>
  The records of shared/models.py. The server builds the same structure as a dict and
  the agent reads it back into these classes.
\<close>

record package_spec =
  pk_id :: nat
  pk_name :: string
  pk_version :: string
  pk_platform :: string
  pk_download_url :: string
  pk_sha256 :: string
  pk_install_cmd :: string
  pk_uninstall_cmd :: string
  pk_silent_args :: string
  pk_precheck_cmd :: string
  pk_postcheck_cmd :: string
  pk_expected_exit_codes :: "int list"

record plan_assignment =
  pa_job_id :: "nat option"
  pa_action :: string
  pa_package :: package_spec

record job_event =
  ev_phase :: string
  ev_status :: "string option"
  ev_rc :: "int option"
  ev_stdout_tail :: "string option"
  ev_stderr_tail :: "string option"

text \<open>The jobs a \<^verbatim>\<open>LEFT JOIN jobs j ON ... AND j.status IN ('Pending','InProgress')\<close>
  pairs with the (computer, package) of an assignment.\<close>

definition non_terminal :: "string \<Rightarrow> bool" where
  "non_terminal s = (s = ''Pending'' \<or> s = ''InProgress'')"

definition in_flight :: "database \<Rightarrow> nat \<Rightarrow> nat \<Rightarrow> job list" where
  "in_flight db cid pid =
     filter (\<lambda>j. j_computer_id j = cid \<and> j_package_id j = pid \<and> non_terminal (j_status j))
       (jobs db)"




definition actionable :: "string \<Rightarrow> bool" where
  "actionable desired = (desired = ''install'' \<or> desired = ''uninstall'')"


section \<open>API handlers (server/main.py, handle\_api)\<close>

text \<open>
  The handlers are modelled after the request has been decoded: the bearer token is what
  \<^verbatim>\<open>_get_bearer_token\<close> returned, the job id is the parsed path component, and the JSON
  payload is a record of optional fields. A response is the status code with the JSON body,
  or the 500 page that \<^verbatim>\<open>__call__\<close> builds from an exception; a handler that raises
  has written what it wrote before the exception and nothing after it.
\<close>

datatype body = Detail string | Enrolled nat string | Assignments "plan_assignment list"

datatype response = Json nat body | Internal_Server_Error string

record enroll_payload =
  en_hostname :: "string option"
  en_os :: "string option"
  en_arch :: "string option"
  en_client_version :: "string option"

record event_payload =
  evp_phase :: "string option"
  evp_status :: "string option"
  evp_rc :: "int option"
  evp_stdout_tail :: "string option"
  evp_stderr_tail :: "string option"

text \<open>
  \<^verbatim>\<open>POST /api/v1/clients/enroll\<close>. \<open>strip\<close> is Python's \<^verbatim>\<open>str.strip\<close> and
  \<open>token\<close> the value \<^verbatim>\<open>secrets.token_hex(16)\<close> returns.
\<close>

definition handle_api_enroll ::
  "(string \<Rightarrow> string) \<Rightarrow> database \<Rightarrow> string \<Rightarrow> string \<Rightarrow> enroll_payload
     \<Rightarrow> database \<times> response" where
  "handle_api_enroll strip db now token payload =
     (let hostname = strip (or_empty (en_hostname payload));
          os_name = strip (or_empty (en_os payload));
          arch = strip (or_empty (en_arch payload));
          client_version = en_client_version payload in
      if hostname = [] then (db, Json 400 (Detail ''hostname is required''))
      else
        case (case get_computer_by_hostname db hostname of
                Some existing \<Rightarrow> Inr (db, c_id existing)
              | None \<Rightarrow> create_computer db hostname os_name arch []) of
          Inl e \<Rightarrow> (db, Internal_Server_Error e)
        | Inr (db1, cid) \<Rightarrow>
            (case set_token_and_meta db1 cid token (Some os_name) (Some arch) client_version of
               Inl e \<Rightarrow> (db1, Internal_Server_Error e)
             | Inr db2 \<Rightarrow> (update_last_check_in db2 now cid, Json 200 (Enrolled cid token))))"

text \<open>\<^verbatim>\<open>POST /api/v1/jobs/<job_id>/events\<close>.\<close>

definition handle_api_events ::
  "database \<Rightarrow> string \<Rightarrow> string option \<Rightarrow> nat \<Rightarrow> event_payload \<Rightarrow> database \<times> response" where
  "handle_api_events db now token job_id event =
     (if token = None \<or> token = Some [] then (db, Json 401 (Detail ''Missing bearer token''))
      else
        case get_job db job_id of
          None \<Rightarrow> (db, Json 404 (Detail ''Job not found''))
        | Some job \<Rightarrow>
            (case get_computer db (j_computer_id job) of
               None \<Rightarrow> (db, Json 401 (Detail ''Unauthorized''))
             | Some owner \<Rightarrow>
                 if c_token owner \<noteq> token \<or> c_token_revoked owner \<noteq> 0
                 then (db, Json 401 (Detail ''Unauthorized''))
                 else
                   (case update_job_status db now job_id (evp_phase event) (evp_status event)
                           (evp_rc event) (evp_stdout_tail event) (evp_stderr_tail event) of
                      Inl e \<Rightarrow> (db, Internal_Server_Error e)
                    | Inr db1 \<Rightarrow> (db1, Json 200 (Detail ''ok'')))))"

section \<open>Agent ledger (client/service/db.py)\<close>

record installed_package =
  ip_id :: nat
  ip_package_id :: nat
  ip_name :: string
  ip_version :: string
  ip_status :: string
  ip_last_action :: string
  ip_last_rc :: int

definition get_installed :: "installed_package list \<Rightarrow> nat \<Rightarrow> installed_package option" where
  "get_installed rows package_id = find (\<lambda>r. ip_package_id r = package_id) rows"

text \<open>
  \<^verbatim>\<open>update_installed\<close>: the SELECT decides between an UPDATE of every row with the
  package id and an INSERT of a new row.
\<close>

definition update_installed ::
  "installed_package list \<Rightarrow> string \<Rightarrow> nat \<Rightarrow> string \<Rightarrow> string \<Rightarrow> string \<Rightarrow> int
     \<Rightarrow> installed_package list" where
  "update_installed rows now package_id name version status rc =
     (case find (\<lambda>r. ip_package_id r = package_id) rows of
        Some row \<Rightarrow>
          map (\<lambda>r. if ip_package_id r = package_id
                    then r\<lparr>ip_version := version, ip_status := status,
                           ip_last_action := now, ip_last_rc := rc\<rparr>
                    else r) rows
      | None \<Rightarrow>
          rows @ [\<lparr>ip_id = lastrowid (map ip_id rows), ip_package_id = package_id,
                    ip_name = name, ip_version = version, ip_status = status,
                    ip_last_action = now, ip_last_rc = rc\<rparr>])"

section \<open>Agent executor (client/service/installer.py, main.py)\<close>

text \<open>
  What the agent does to its host goes through the record \<open>env\<close>: each field is one
  library call of the source, as a function of the state of the world \<open>'w\<close> it runs in,
  returning the world it leaves. A call that can raise returns the exception's text
  (\<open>Some e\<close> or \<open>Inl e\<close>). The theorems hold for every such record. Every call is taken
  to come back: a command that never ends (the source sets no timeout) has no run in this
  model, and the statements on the local SQLite file are taken to succeed.
  \<^item> \<open>io_now\<close>: \<^verbatim>\<open>datetime.datetime.utcnow().isoformat()\<close>;
  \<^item> \<open>io_mkdir\<close>: \<^verbatim>\<open>cache_dir.mkdir(exist_ok=True)\<close>;
  \<^item> \<open>io_cache_path\<close>: \<^verbatim>\<open>str(cache_dir / name)\<close>;
  \<^item> \<open>io_exists\<close>: \<^verbatim>\<open>artifact_path.exists()\<close>;
  \<^item> \<open>io_download\<close>: \<^verbatim>\<open>download_file(url, dest)\<close>;
  \<^item> \<open>io_sha256\<close>: the chunked \<^verbatim>\<open>hashlib.sha256\<close> loop over the file, giving
    \<^verbatim>\<open>hexdigest()\<close>;
  \<^item> \<open>io_subprocess\<close>: \<^verbatim>\<open>subprocess.run(command, shell=True, capture_output=True,
    text=True)\<close>, giving return code, stdout and stderr;
  \<^item> \<open>io_post\<close>: the \<^verbatim>\<open>urlopen\<close> of \<^verbatim>\<open>post_job_event\<close>; an HTTPError is
    swallowed there and counts as a return, any other exception (\<open>Some e\<close>) escapes;
  \<^item> \<open>py_lower\<close>: \<^verbatim>\<open>str.lower\<close>; \<open>py_format\<close>: \<^verbatim>\<open>base_cmd.format(file=path)\<close>.
\<close>

type_synonym result = "int \<times> string \<times> string"

record 'w env =
  io_now :: "'w \<Rightarrow> string"
  io_mkdir :: "'w \<Rightarrow> string option \<times> 'w"
  io_cache_path :: "string \<Rightarrow> string"
  io_exists :: "'w \<Rightarrow> string \<Rightarrow> string + bool"
  io_download :: "'w \<Rightarrow> string \<Rightarrow> string \<Rightarrow> string option \<times> 'w"
  io_sha256 :: "'w \<Rightarrow> string \<Rightarrow> string + string"
  io_subprocess :: "'w \<Rightarrow> string \<Rightarrow> (string + result) \<times> 'w"
  io_post :: "'w \<Rightarrow> nat \<Rightarrow> job_event \<Rightarrow> string option \<times> 'w"
  py_lower :: "string \<Rightarrow> string"
  py_format :: "string \<Rightarrow> string \<Rightarrow> string + string"

text \<open>
  The state of the agent during a poll cycle: the world, the rows of
  \<^verbatim>\<open>installed_packages\<close>, the events handed to the server so far (with their job
  ids) and the commands handed to \<^verbatim>\<open>subprocess.run\<close> so far.
\<close>

record 'w agent =
  world :: 'w
  ledger :: "installed_package list"
  posted :: "(nat \<times> job_event) list"
  ran :: "string list"

record config =
  cfg_client_id :: "nat option"
  cfg_token :: "string option"

definition enrolled :: "config \<Rightarrow> bool" where
  "enrolled cfg = (cfg_client_id cfg \<noteq> None \<and> cfg_token cfg \<noteq> None \<and> cfg_token cfg \<noteq> Some [])"

text \<open>
  \<^verbatim>\<open>network.post_job_event\<close>. The result pairs the exception that escapes the call,
  if any, with the state the call leaves.
\<close>

definition post_job_event ::
  "'w env \<Rightarrow> config \<Rightarrow> 'w agent \<Rightarrow> nat \<Rightarrow> job_event \<Rightarrow> string option \<times> 'w agent" where
  "post_job_event env cfg s job_id event =
     (if \<not> enrolled cfg then (None, s)
      else case io_post env (world s) job_id event of
             (Some e, w) \<Rightarrow> (Some e, s\<lparr>world := w\<rparr>)
           | (None, w) \<Rightarrow> (None, s\<lparr>world := w, posted := posted s @ [(job_id, event)]\<rparr>))"

text \<open>\<^verbatim>\<open>if job_id is not None: network.post_job_event(cfg, job_id, event)\<close>.\<close>

definition post_if_job ::
  "'w env \<Rightarrow> config \<Rightarrow> 'w agent \<Rightarrow> nat option \<Rightarrow> job_event \<Rightarrow> string option \<times> 'w agent" where
  "post_if_job env cfg s job_id event =
     (case job_id of None \<Rightarrow> (None, s) | Some j \<Rightarrow> post_job_event env cfg s j event)"

text \<open>\<^verbatim>\<open>str(n)\<close> of a natural number, for the f-string of the artifact name.\<close>

definition digit :: "nat \<Rightarrow> char" where
  "digit d = ''0123456789'' ! d"

fun decimal :: "nat \<Rightarrow> string" where
  "decimal n = (if n < 10 then [digit n] else decimal (n div 10) @ [digit (n mod 10)])"

definition verify_sha256 :: "'w env \<Rightarrow> 'w \<Rightarrow> string \<Rightarrow> string \<Rightarrow> string + bool" where
  "verify_sha256 env w path expected_hex =
     (if expected_hex = [] then Inr True
      else case io_sha256 env w path of
             Inl e \<Rightarrow> Inl e
           | Inr hexdigest \<Rightarrow> Inr (py_lower env hexdigest = py_lower env expected_hex))"

text \<open>\<^verbatim>\<open>s[-4096:]\<close>.\<close>

definition tail_4096 :: "string \<Rightarrow> string" where
  "tail_4096 s = drop (length s - 4096) s"

definition run_subprocess :: "'w env \<Rightarrow> 'w agent \<Rightarrow> string \<Rightarrow> result \<times> 'w agent" where
  "run_subprocess env s command =
     (case io_subprocess env (world s) command of
        (Inl e, w) \<Rightarrow> ((1, [], e), s\<lparr>world := w, ran := ran s @ [command]\<rparr>)
      | (Inr (returncode, stdout, stderr), w) \<Rightarrow>
          ((returncode, tail_4096 stdout, tail_4096 stderr),
           s\<lparr>world := w, ran := ran s @ [command]\<rparr>))"

text \<open>
  \<^verbatim>\<open>perform_action\<close> either raises (\<open>Inl e\<close>) or returns its triple (\<open>Inr\<close>). It is
  split where the source is: \<open>fetch_artifact\<close> is the \<^verbatim>\<open>if pkg.download_url:\<close> block
  (\<open>None\<close> when control falls through it), \<open>build_command\<close> the choice and formatting of the
  command, \<open>prepare_command\<close> everything before the action command is run.
\<close>

definition fetch_artifact ::
  "'w env \<Rightarrow> 'w agent \<Rightarrow> package_spec \<Rightarrow> string \<Rightarrow> (string + result) option \<times> 'w agent" where
  "fetch_artifact env s pkg artifact_path =
     (if pk_download_url pkg = [] then (None, s)
      else
        case io_exists env (world s) artifact_path of
          Inl e \<Rightarrow> (Some (Inr (1, [], ''Download failed: '' @ e)), s)
        | Inr present \<Rightarrow>
            (case (if present then (None, world s)
                   else io_download env (world s) (pk_download_url pkg) artifact_path) of
               (Some e, w) \<Rightarrow> (Some (Inr (1, [], ''Download failed: '' @ e)), s\<lparr>world := w\<rparr>)
             | (None, w) \<Rightarrow>
                 (case verify_sha256 env w artifact_path (pk_sha256 pkg) of
                    Inl e \<Rightarrow> (Some (Inl e), s\<lparr>world := w\<rparr>)
                  | Inr ok \<Rightarrow>
                      if \<not> ok then (Some (Inr (1, [], ''Checksum mismatch'')), s\<lparr>world := w\<rparr>)
                      else (None, s\<lparr>world := w\<rparr>))))"

definition build_command ::
  "'w env \<Rightarrow> package_spec \<Rightarrow> string \<Rightarrow> string \<Rightarrow> (string + result) + string" where
  "build_command env pkg action artifact_path =
     (let base_cmd = (if action = ''install'' then pk_install_cmd pkg else pk_uninstall_cmd pkg) in
      if base_cmd = [] then Inl (Inr (1, [], ''No command defined''))
      else case py_format env base_cmd artifact_path of
             Inl e \<Rightarrow> Inl (Inl e)
           | Inr cmd \<Rightarrow>
               Inr (if pk_silent_args pkg \<noteq> [] then cmd @ '' '' @ pk_silent_args pkg else cmd))"

definition prepare_command ::
  "'w env \<Rightarrow> 'w agent \<Rightarrow> plan_assignment \<Rightarrow> string
     \<Rightarrow> ((string + result) + string) \<times> 'w agent" where
  "prepare_command env s assignment action =
     (let pkg = pa_package assignment in
      case io_mkdir env (world s) of
        (Some e, w) \<Rightarrow> (Inl (Inl e), s\<lparr>world := w\<rparr>)
      | (None, w) \<Rightarrow>
          (let artifact_path =
                 io_cache_path env (''pkg_'' @ decimal (pk_id pkg) @ ''_'' @ pk_version pkg) in
           case fetch_artifact env (s\<lparr>world := w\<rparr>) pkg artifact_path of
             (Some early, s1) \<Rightarrow> (Inl early, s1)
           | (None, s1) \<Rightarrow>
               if pk_precheck_cmd pkg \<noteq> [] then
                 (case run_subprocess env s1 (pk_precheck_cmd pkg) of
                    ((rc, out, err), s2) \<Rightarrow>
                      if rc \<noteq> 0 then (Inl (Inr (rc, out, err)), s2)
                      else (build_command env pkg action artifact_path, s2))
               else (build_command env pkg action artifact_path, s1)))"

definition perform_action ::
  "'w env \<Rightarrow> 'w agent \<Rightarrow> plan_assignment \<Rightarrow> string \<Rightarrow> (string + result) \<times> 'w agent" where
  "perform_action env s assignment action =
     (case prepare_command env s assignment action of
        (Inl early, s2) \<Rightarrow> (early, s2)
      | (Inr cmd, s2) \<Rightarrow>
          (case run_subprocess env s2 cmd of
             (r, s3) \<Rightarrow>
               if pk_postcheck_cmd (pa_package assignment) \<noteq> [] then
                 (case run_subprocess env s3 (pk_postcheck_cmd (pa_package assignment)) of
                    ((rc2, out2, err2), s4) \<Rightarrow>
                      if rc2 \<noteq> 0 then (Inr (rc2, out2, err2), s4) else (Inr r, s4))
               else (Inr r, s3)))"

text \<open>
  The body of the \<^verbatim>\<open>for assignment in assignments\<close> loop of \<^verbatim>\<open>main\<close>. The loop is
  entered only after \<^verbatim>\<open>fetch_plan\<close> returned. An exception that escapes
  \<^verbatim>\<open>post_job_event\<close> is not caught by \<^verbatim>\<open>main\<close>: it ends the loop body (and the
  process) where it is raised.
\<close>

definition already_converged :: "installed_package list \<Rightarrow> plan_assignment \<Rightarrow> bool" where
  "already_converged rows assignment =
     (let local_pkg = get_installed rows (pk_id (pa_package assignment)) in
      if pa_action assignment = ''install'' then
        (case local_pkg of
           None \<Rightarrow> False
         | Some l \<Rightarrow> ip_version l = pk_version (pa_package assignment) \<and>
                     ip_status l = ''installed'')
      else if pa_action assignment = ''uninstall'' then
        (case local_pkg of
           None \<Rightarrow> True
         | Some l \<Rightarrow> ip_status l \<noteq> ''installed'')
      else False)"

definition skipped_event :: "string \<Rightarrow> job_event" where
  "skipped_event action =
     \<lparr>ev_phase = ''completed'', ev_status = Some ''Succeeded'', ev_rc = Some 0,
      ev_stdout_tail = Some (if action = ''install'' then ''already installed''
                             else ''already uninstalled''),
      ev_stderr_tail = Some []\<rparr>"

definition start_event :: job_event where
  "start_event =
     \<lparr>ev_phase = ''start'', ev_status = None, ev_rc = None, ev_stdout_tail = None,
      ev_stderr_tail = None\<rparr>"

definition completed_event :: "string \<Rightarrow> int \<Rightarrow> string \<Rightarrow> string \<Rightarrow> job_event" where
  "completed_event status rc out err =
     \<lparr>ev_phase = ''completed'', ev_status = Some status, ev_rc = Some rc,
      ev_stdout_tail = Some out, ev_stderr_tail = Some err\<rparr>"

definition ok_codes :: "package_spec \<Rightarrow> int list" where
  "ok_codes pkg = (if pk_expected_exit_codes pkg = [] then [0] else pk_expected_exit_codes pkg)"

definition classify :: "package_spec \<Rightarrow> int \<Rightarrow> string" where
  "classify pkg rc = (if rc \<in> set (ok_codes pkg) then ''Succeeded'' else ''Failed'')"

definition record_outcome :: "'w env \<Rightarrow> 'w agent \<Rightarrow> plan_assignment \<Rightarrow> int \<Rightarrow> 'w agent" where
  "record_outcome env s assignment rc =
     (let action = pa_action assignment; pkg = pa_package assignment;
          status = classify pkg rc in
      if action = ''install'' \<and> status = ''Succeeded'' then
        s\<lparr>ledger := update_installed (ledger s) (io_now env (world s)) (pk_id pkg) (pk_name pkg)
                       (pk_version pkg) ''installed'' rc\<rparr>
      else if action = ''uninstall'' \<and> status = ''Succeeded'' then
        s\<lparr>ledger := update_installed (ledger s) (io_now env (world s)) (pk_id pkg) (pk_name pkg)
                       (pk_version pkg) ''uninstalled'' rc\<rparr>
      else s)"

definition process_assignment ::
  "'w env \<Rightarrow> config \<Rightarrow> 'w agent \<Rightarrow> plan_assignment \<Rightarrow> string option \<times> 'w agent" where
  "process_assignment env cfg s assignment =
     (let action = pa_action assignment; job_id = pa_job_id assignment;
          pkg = pa_package assignment in
      if already_converged (ledger s) assignment
      then post_if_job env cfg s job_id (skipped_event action)
      else
        case post_if_job env cfg s job_id start_event of
          (Some e, s1) \<Rightarrow> (Some e, s1)
        | (None, s1) \<Rightarrow>
            (case perform_action env s1 assignment action of
               (outcome, s2) \<Rightarrow>
                 (case (case outcome of Inl e \<Rightarrow> (1, [], e) | Inr r \<Rightarrow> r) of
                    (rc, out, err) \<Rightarrow>
                      post_if_job env cfg (record_outcome env s2 assignment rc) job_id
                        (completed_event (classify pkg rc) rc out err))))"

fun process_plan ::
  "'w env \<Rightarrow> config \<Rightarrow> 'w agent \<Rightarrow> plan_assignment list \<Rightarrow> string option \<times> 'w agent" where
  "process_plan env cfg s [] = (None, s)"
| "process_plan env cfg s (a # as) =
     (case process_assignment env cfg s a of
        (Some e, s1) \<Rightarrow> (Some e, s1)
      | (None, s1) \<Rightarrow> process_plan env cfg s1 as)"

section \<open>Operation sequences on the server store\<close>

text \<open>
  The operations that create or change job rows, and a run of a list of them. A job event
  is an application of \<open>update_job_status\<close>, as the events endpoint makes it once
  the request is authorised; an event on which it raises leaves the store as it was.
\<close>

datatype op =
    Set_Assignment string nat nat string
  | Schedule_Job nat nat string
  | Job_Event string nat "string option" "string option" "int option" "string option"
      "string option"

fun apply_op :: "database \<Rightarrow> op \<Rightarrow> database" where
  "apply_op db (Set_Assignment now cid pid desired) = fst (set_assignment db now cid pid desired)"
| "apply_op db (Schedule_Job cid pid action) = fst (schedule_job db cid pid action)"
| "apply_op db (Job_Event now jid phase status rc out err) =
     store_after db (update_job_status db now jid phase status rc out err)"

fun run :: "database \<Rightarrow> op list \<Rightarrow> database" where
  "run db [] = db"
| "run db (x # xs) = run (apply_op db x) xs"

text \<open>
  \<open>schedules\<close>: the condition under which \<open>set_assignment\<close> calls \<open>schedule_job\<close>
  (the desired state is actionable and the assignment is new or changed).
\<close>

definition schedules :: "database \<Rightarrow> nat \<Rightarrow> nat \<Rightarrow> string \<Rightarrow> bool" where
  "schedules db cid pid desired =
     (actionable desired \<and>
      (case find (\<lambda>a. a_computer_id a = cid \<and> a_package_id a = pid) (assignments db) of
         Some row \<Rightarrow> a_desired_state row \<noteq> desired
       | None \<Rightarrow> True))"

text \<open>
  The discipline under which the one-job-in-flight invariant is kept. The store checks
  none of it: a job is scheduled for a pair only while the pair has no job in flight, and
  no event moves a job that is not in flight to \<open>Pending\<close> or \<open>InProgress\<close>.
\<close>

fun admissible :: "database \<Rightarrow> op \<Rightarrow> bool" where
  "admissible db (Set_Assignment now cid pid desired) =
     (schedules db cid pid desired \<longrightarrow> in_flight db cid pid = [])"
| "admissible db (Schedule_Job cid pid action) = (in_flight db cid pid = [])"
| "admissible db (Job_Event now jid phase status rc out err) =
     (\<forall>j \<in> set (jobs db). j_id j = jid \<and> \<not> non_terminal (j_status j) \<longrightarrow>
        phase \<noteq> Some ''start'' \<and>
        (phase = Some ''completed'' \<longrightarrow> \<not> non_terminal (final_status status)))"

fun admissible_run :: "database \<Rightarrow> op list \<Rightarrow> bool" where
  "admissible_run db [] = True"
| "admissible_run db (x # xs) = (admissible db x \<and> admissible_run (apply_op db x) xs)"


text \<open>The row \<open>schedule_job\<close> inserts.\<close>

definition pending_job :: "nat \<Rightarrow> nat \<Rightarrow> nat \<Rightarrow> string \<Rightarrow> job" where
  "pending_job jid cid pid action =
     \<lparr>j_id = jid, j_computer_id = cid, j_package_id = pid,
      j_action = action, j_status = ''Pending'', j_started_at = None,
      j_finished_at = None, j_rc = None, j_stdout_tail = None, j_stderr_tail = None,
      j_attempts = 0\<rparr>"

section \<open>A concrete run of the server\<close>

text \<open>
  One machine enrols, a package is created and assigned to it for installation, and the
  agent reports the start and the successful completion of the job.
\<close>

definition host1_payload :: enroll_payload where
  "host1_payload =
     \<lparr>en_hostname = Some ''host1'', en_os = Some ''linux'', en_arch = Some ''x86_64'',
      en_client_version = None\<rparr>"

definition db_enrolled :: database where
  "db_enrolled = fst (handle_api_enroll (\<lambda>s. s) empty_db ''t0'' ''tok1'' host1_payload)"

definition db_package :: database where
  "db_package =
     fst (create_package db_enrolled ''P'' ''1.0'' ''linux'' [] [] ''install-p'' ''remove-p''
            [] [] [] [])"

definition db_assigned :: database where
  "db_assigned = fst (set_assignment db_package ''t1'' 1 1 ''install'')"

definition db_started :: database where
  "db_started =
     store_after db_assigned
       (update_job_status db_assigned ''t2'' 1 (Some ''start'') None None None None)"

definition db_done :: database where
  "db_done =
     store_after db_started
       (update_job_status db_started ''t3'' 1 (Some ''completed'') (Some ''Succeeded'') (Some 0)
          (Some ''ok'') (Some []))"


definition progress_payload :: event_payload where
  "progress_payload =
     \<lparr>evp_phase = Some ''progress'', evp_status = Some ''InProgress'', evp_rc = None,
      evp_stdout_tail = Some ''50%'', evp_stderr_tail = None\<rparr>"



definition install_cycle :: "op list" where
  "install_cycle =
     [Set_Assignment ''t1'' 1 1 ''install'',
      Job_Event ''t2'' 1 (Some ''start'') None None None None,
      Job_Event ''t3'' 1 (Some ''completed'') (Some ''Succeeded'') (Some 0) (Some ''ok'')
        (Some [])]"

section \<open>A concrete agent\<close>

text \<open>
  A host on which every artifact is already in the cache with digest \<open>00aa\<close>, the command
  \<open>verify-p\<close> exits 3 and every other command exits 0, and every post reaches the server.
\<close>

definition host :: "unit env" where
  "host =
     \<lparr>io_now = (\<lambda>w. ''t5''),
      io_mkdir = (\<lambda>w. (None, w)),
      io_cache_path = (\<lambda>name. ''artifact_cache/'' @ name),
      io_exists = (\<lambda>w path. Inr True),
      io_download = (\<lambda>w url dest. (None, w)),
      io_sha256 = (\<lambda>w path. Inr ''00aa''),
      io_subprocess =
        (\<lambda>w cmd. (Inr (if cmd = ''verify-p'' then (3, ''verify out'', ''verify err'')
                         else (0, ''done'', [])), w)),
      io_post = (\<lambda>w job_id event. (None, w)),
      py_lower = (\<lambda>s. s),
      py_format = (\<lambda>template file. Inr template)\<rparr>"

definition host_cfg :: config where
  "host_cfg = \<lparr>cfg_client_id = Some 1, cfg_token = Some ''tok1''\<rparr>"

definition pkg_p :: package_spec where
  "pkg_p =
     \<lparr>pk_id = 1, pk_name = ''P'', pk_version = ''1.0'', pk_platform = ''linux'',
      pk_download_url = [], pk_sha256 = [], pk_install_cmd = ''install-p'',
      pk_uninstall_cmd = ''remove-p'', pk_silent_args = [], pk_precheck_cmd = [],
      pk_postcheck_cmd = [], pk_expected_exit_codes = []\<rparr>"

definition p_installed :: installed_package where
  "p_installed =
     \<lparr>ip_id = 1, ip_package_id = 1, ip_name = ''P'', ip_version = ''1.0'',
      ip_status = ''installed'', ip_last_action = ''t5'', ip_last_rc = 0\<rparr>"

definition fresh_agent :: "unit agent" where
  "fresh_agent = \<lparr>world = (), ledger = [], posted = [], ran = []\<rparr>"

definition converged_agent :: "unit agent" where
  "converged_agent = \<lparr>world = (), ledger = [p_installed], posted = [], ran = []\<rparr>"

definition install_p :: "nat option \<Rightarrow> package_spec \<Rightarrow> plan_assignment" where
  "install_p job_id pkg = \<lparr>pa_job_id = job_id, pa_action = ''install'', pa_package = pkg\<rparr>"



definition pkg_no_command :: package_spec where
  "pkg_no_command = pkg_p\<lparr>pk_install_cmd := [], pk_expected_exit_codes := [0, 1]\<rparr>"

definition started_agent :: "unit agent" where
  "started_agent = fresh_agent\<lparr>posted := [(7, start_event)]\<rparr>"

section \<open>Auxiliary facts\<close>

lemma find_map_key:
  assumes "\<And>x. key (f x) = key x"
  shows "find (\<lambda>x. key x = k) (map f xs) = map_option f (find (\<lambda>x. key x = k) xs)"
  using assms by (induction xs) auto

lemma lastrowid_Nil: "lastrowid [] = 1"
  by (simp add: lastrowid_def)

lemma db_enrolled_eq:
  "db_enrolled =
     \<lparr>computers =
        [\<lparr>c_id = 1, c_hostname = ''host1'', c_os = Some ''linux'', c_arch = Some ''x86_64'',
          c_tags = [], c_last_check_in = Some ''t0'', c_client_version = None,
          c_token = Some ''tok1'', c_token_revoked = 0\<rparr>],
      packages = [], assignments = [], jobs = []\<rparr>"
  by (simp add: db_enrolled_def handle_api_enroll_def host1_payload_def or_empty_def empty_db_def
      get_computer_by_hostname_def create_computer_def lastrowid_Nil set_token_and_meta_def
      coalesce_def update_last_check_in_def)

lemma db_package_eq:
  "db_package =
     db_enrolled\<lparr>packages :=
        [\<lparr>p_id = 1, p_name = ''P'', p_version = ''1.0'', p_platform = ''linux'',
          p_download_url = Some [], p_sha256 = Some [], p_install_cmd = Some ''install-p'',
          p_uninstall_cmd = Some ''remove-p'', p_silent_args = Some [],
          p_precheck_cmd = Some [], p_postcheck_cmd = Some [],
          p_expected_exit_codes = Some []\<rparr>]\<rparr>"
  by (simp add: db_package_def create_package_def db_enrolled_eq lastrowid_Nil)

lemma db_assigned_eq:
  "db_assigned =
     db_package\<lparr>assignments :=
        [\<lparr>a_id = 1, a_computer_id = 1, a_package_id = 1, a_desired_state = ''install'',
          a_created_at = Some ''t1'', a_updated_at = Some ''t1''\<rparr>],
       jobs := [pending_job 1 1 1 ''install'']\<rparr>"
  by (simp add: db_assigned_def set_assignment_def schedule_job_def db_package_eq db_enrolled_eq
      lastrowid_Nil pending_job_def)

lemma db_done_eq:
  "db_done =
     db_assigned\<lparr>jobs :=
        [\<lparr>j_id = 1, j_computer_id = 1, j_package_id = 1, j_action = ''install'',
          j_status = ''Succeeded'', j_started_at = Some ''t2'', j_finished_at = Some ''t3'',
          j_rc = Some 0, j_stdout_tail = Some ''ok'', j_stderr_tail = Some [],
          j_attempts = 1\<rparr>]\<rparr>"
  by (simp add: db_done_def db_started_def update_job_status_def store_after_def bindable_def
      sqlite_integer_def final_status_def db_assigned_eq db_package_eq db_enrolled_eq
      pending_job_def)

section \<open>Job events (claims C9 and C3)\<close>

lemma get_job_update_job_status:
  "get_job (store_after db (update_job_status db now jid phase status rc so se)) k =
     map_option
       (\<lambda>j. if j_id j = jid then
               (if phase = Some ''start'' then
                  j\<lparr>j_status := ''InProgress'', j_started_at := Some now,
                    j_attempts := j_attempts j + 1\<rparr>
                else if phase = Some ''completed'' \<and> bindable rc then
                  j\<lparr>j_status := final_status status, j_finished_at := Some now, j_rc := rc,
                    j_stdout_tail := so, j_stderr_tail := se\<rparr>
                else j)
             else j)
       (get_job db k)"
proof -
  consider (start) "phase = Some ''start''"
    | (completed) "phase \<noteq> Some ''start''" "phase = Some ''completed''" "bindable rc"
    | (other) "phase \<noteq> Some ''start''" "\<not> (phase = Some ''completed'' \<and> bindable rc)"
    by blast
  then show ?thesis
  proof cases
    case start
    then show ?thesis
      unfolding get_job_def update_job_status_def store_after_def
      by (simp add: find_map_key[where key = j_id, symmetric] cong: if_cong)
  next
    case completed
    then show ?thesis
      unfolding get_job_def update_job_status_def store_after_def
      by (simp add: find_map_key[where key = j_id, symmetric] cong: if_cong)
  next
    case other
    then have "store_after db (update_job_status db now jid phase status rc so se) = db"
      by (auto simp: update_job_status_def store_after_def)
    with other show ?thesis by (cases "get_job db k") auto
  qed
qed



text \<open>
  Claim C9. An event whose phase is neither \<open>start\<close> nor \<open>completed\<close> (a missing
  phase included) leaves the whole store, and so every field of the job row, as it was:
  \<open>update_job_status\<close> returns, without raising, the store it was given, and the events
  endpoint leaves the store as it was whatever it answers; and the endpoint answers such an event as it answers any other: for
  a request that carries the token of the machine that owns the job, not revoked, the
  response is 200 with detail \<open>ok\<close>.
\<close>

theorem other_phase_event_changes_nothing:
  "evp_phase event \<noteq> Some ''start'' \<and> evp_phase event \<noteq> Some ''completed'' \<longrightarrow>
     update_job_status db now jid (evp_phase event) (evp_status event) (evp_rc event)
        (evp_stdout_tail event) (evp_stderr_tail event) = Inr db \<and>
     fst (handle_api_events db now token jid event) = db \<and>
     (get_job db jid = Some job \<and> get_computer db (j_computer_id job) = Some owner \<and>
      token = c_token owner \<and> token \<noteq> None \<and> token \<noteq> Some [] \<and> c_token_revoked owner = 0 \<longrightarrow>
        handle_api_events db now token jid event = (db, Json 200 (Detail ''ok'')))"
  by (auto simp: update_job_status_def handle_api_events_def split: option.splits)

lemma get_computer_host1:
  "get_computer db_enrolled 1 = Some
      \<lparr>c_id = 1, c_hostname = ''host1'', c_os = Some ''linux'', c_arch = Some ''x86_64'',
        c_tags = [], c_last_check_in = Some ''t0'', c_client_version = None,
        c_token = Some ''tok1'', c_token_revoked = 0\<rparr>"
  by (simp add: get_computer_def db_enrolled_eq)

lemma get_computer_later:
  "get_computer db_started cid = get_computer db_enrolled cid"
  "get_computer db_done cid = get_computer db_enrolled cid"
  by (simp_all add: get_computer_def db_done_eq db_started_def update_job_status_def
      store_after_def db_assigned_eq db_package_eq)

theorem other_phase_event_changes_nothing_witness:
  "evp_phase progress_payload \<noteq> Some ''start'' \<and>
   evp_phase progress_payload \<noteq> Some ''completed'' \<and>
   map_option j_status (get_job db_started 1) = Some ''InProgress'' \<and>
   handle_api_events db_started ''t3'' (Some ''tok1'') 1 progress_payload =
     (db_started, Json 200 (Detail ''ok''))"
proof -
  let ?job = "pending_job 1 1 1 ''install''
       \<lparr>j_status := ''InProgress'', j_started_at := Some ''t2'', j_attempts := 1\<rparr>"
  let ?owner = "\<lparr>c_id = 1, c_hostname = ''host1'', c_os = Some ''linux'',
        c_arch = Some ''x86_64'', c_tags = [], c_last_check_in = Some ''t0'',
        c_client_version = None, c_token = Some ''tok1'', c_token_revoked = 0\<rparr>"
  have job: "get_job db_started 1 = Some ?job"
    unfolding db_started_def get_job_update_job_status
    by (simp add: get_job_def db_assigned_eq pending_job_def)
  have phase: "evp_phase progress_payload \<noteq> Some ''start'' \<and>
      evp_phase progress_payload \<noteq> Some ''completed''"
    by (simp add: progress_payload_def)
  have auth: "get_job db_started 1 = Some ?job \<and>
      get_computer db_started (j_computer_id ?job) = Some ?owner \<and>
      Some ''tok1'' = c_token ?owner \<and> Some ''tok1'' \<noteq> None \<and>
      Some ''tok1'' \<noteq> Some [] \<and> c_token_revoked ?owner = 0"
    using job by (simp add: get_computer_later get_computer_host1 pending_job_def
        del: One_nat_def)
  from other_phase_event_changes_nothing
         [of progress_payload db_started "''t3''" 1 "Some ''tok1''" ?job ?owner] phase auth
  have "handle_api_events db_started ''t3'' (Some ''tok1'') 1 progress_payload =
     (db_started, Json 200 (Detail ''ok''))"
    by blast
  with job phase show ?thesis by (simp add: pending_job_def del: One_nat_def)
qed





section \<open>Enrolment (claim C7)\<close>







section \<open>The plan (claim C2)\<close>












section \<open>Jobs in flight (claim C1)\<close>

lemma jobs_schedule_job:
  "jobs (fst (schedule_job db cid pid action)) =
     jobs db @ [pending_job (lastrowid (map j_id (jobs db))) cid pid action]"
  by (simp add: schedule_job_def Let_def pending_job_def)

lemma jobs_set_assignment:
  "jobs (fst (set_assignment db now cid pid desired)) =
     jobs db @ (if schedules db cid pid desired
                then [pending_job (lastrowid (map j_id (jobs db))) cid pid desired] else [])"
  unfolding set_assignment_def schedules_def actionable_def Let_def
  by (simp add: jobs_schedule_job split: option.splits)

lemma in_flight_append:
  "jobs db' = jobs db @ js \<Longrightarrow>
   in_flight db' c p = in_flight db c p @
     filter (\<lambda>j. j_computer_id j = c \<and> j_package_id j = p \<and> non_terminal (j_status j)) js"
  by (simp add: in_flight_def)

lemma in_flight_schedule_job:
  "in_flight (fst (schedule_job db cid pid action)) c p =
     in_flight db c p @
       (if c = cid \<and> p = pid
        then [pending_job (lastrowid (map j_id (jobs db))) cid pid action] else [])"
  by (simp add: in_flight_append[OF jobs_schedule_job] pending_job_def non_terminal_def)

lemma in_flight_set_assignment:
  "in_flight (fst (set_assignment db now cid pid desired)) c p =
     in_flight db c p @
       (if schedules db cid pid desired \<and> c = cid \<and> p = pid
        then [pending_job (lastrowid (map j_id (jobs db))) cid pid desired] else [])"
  by (simp add: in_flight_append[OF jobs_set_assignment] pending_job_def non_terminal_def)

lemma length_filter_map_le:
  assumes "\<And>x. x \<in> set xs \<Longrightarrow> P (f x) \<Longrightarrow> Q x"
  shows "length (filter P (map f xs)) \<le> length (filter Q xs)"
  using assms by (induction xs) (auto simp: le_SucI)

lemma in_flight_map_le:
  assumes "jobs db' = map f (jobs db)"
      and "\<And>j. j \<in> set (jobs db) \<Longrightarrow> j_computer_id (f j) = j_computer_id j \<and>
              j_package_id (f j) = j_package_id j \<and>
              (non_terminal (j_status (f j)) \<longrightarrow> non_terminal (j_status j))"
  shows "length (in_flight db' c p) \<le> length (in_flight db c p)"
  unfolding in_flight_def assms(1)
  by (rule length_filter_map_le) (use assms(2) in auto)

lemma in_flight_update_job_status:
  assumes adm: "admissible db (Job_Event now jid phase status rc out err)"
  shows "length (in_flight (store_after db (update_job_status db now jid phase status rc out err))
                   c p)
           \<le> length (in_flight db c p)"
proof -
  let ?started = "\<lambda>j. if j_id j = jid
                       then j\<lparr>j_status := ''InProgress'', j_started_at := Some now,
                              j_attempts := j_attempts j + 1\<rparr>
                       else j"
  let ?finished = "\<lambda>j. if j_id j = jid
                        then j\<lparr>j_status := final_status status, j_finished_at := Some now,
                               j_rc := rc, j_stdout_tail := out, j_stderr_tail := err\<rparr>
                        else j"
  let ?db' = "store_after db (update_job_status db now jid phase status rc out err)"
  consider (start) "phase = Some ''start''"
    | (completed) "phase \<noteq> Some ''start''" "phase = Some ''completed''" "bindable rc"
    | (other) "phase \<noteq> Some ''start''" "\<not> (phase = Some ''completed'' \<and> bindable rc)"
    by blast
  then show ?thesis
  proof cases
    case start
    show ?thesis
    proof (rule in_flight_map_le)
      show "jobs ?db' = map ?started (jobs db)"
        using start by (simp add: update_job_status_def store_after_def)
    next
      fix j assume "j \<in> set (jobs db)"
      with adm start
      show "j_computer_id (?started j) = j_computer_id j \<and>
            j_package_id (?started j) = j_package_id j \<and>
            (non_terminal (j_status (?started j)) \<longrightarrow> non_terminal (j_status j))"
        by auto
    qed
  next
    case completed
    show ?thesis
    proof (rule in_flight_map_le)
      show "jobs ?db' = map ?finished (jobs db)"
        using completed by (simp add: update_job_status_def store_after_def)
    next
      fix j assume "j \<in> set (jobs db)"
      with adm completed
      show "j_computer_id (?finished j) = j_computer_id j \<and>
            j_package_id (?finished j) = j_package_id j \<and>
            (non_terminal (j_status (?finished j)) \<longrightarrow> non_terminal (j_status j))"
        by auto
    qed
  next
    case other
    then have "?db' = db"
      by (auto simp: update_job_status_def store_after_def)
    then show ?thesis by simp
  qed
qed

lemma admissible_step_keeps_invariant:
  assumes "\<forall>c p. length (in_flight db c p) \<le> 1" "admissible db x"
  shows "\<forall>c p. length (in_flight (apply_op db x) c p) \<le> 1"
proof (cases x)
  case (Set_Assignment now cid pid desired)
  with assms show ?thesis by (auto simp: in_flight_set_assignment)
next
  case (Schedule_Job cid pid action)
  with assms show ?thesis by (auto simp: in_flight_schedule_job)
next
  case (Job_Event now jid phase status rc out err)
  show ?thesis
  proof (intro allI)
    fix c p
    have "length (in_flight (apply_op db x) c p) \<le> length (in_flight db c p)"
      using in_flight_update_job_status[of db now jid phase status rc out err c p] assms(2)
      unfolding Job_Event by simp
    also have "\<dots> \<le> 1" using assms(1) by simp
    finally show "length (in_flight (apply_op db x) c p) \<le> 1" .
  qed
qed

lemma admissible_run_keeps_invariant:
  "\<forall>c p. length (in_flight db c p) \<le> 1 \<Longrightarrow> admissible_run db xs \<Longrightarrow>
     \<forall>c p. length (in_flight (run db (take n xs)) c p) \<le> 1"
proof (induction xs arbitrary: db n)
  case Nil
  then show ?case by simp
next
  case (Cons x xs)
  show ?case
  proof (cases n)
    case 0
    with Cons.prems show ?thesis by simp
  next
    case (Suc k)
    from Cons.prems have "\<forall>c p. length (in_flight (apply_op db x) c p) \<le> 1"
      using admissible_step_keeps_invariant by simp
    with Cons.prems Cons.IH[of "apply_op db x" k] Suc show ?thesis by simp
  qed
qed

text \<open>
  Claim C1, as the code has it. Starting from the empty store, after every prefix of a
  sequence of \<open>set_assignment\<close>, \<open>schedule_job\<close> and job-event operations, every (machine,
  package) pair has at most one \<open>Pending\<close> or \<open>InProgress\<close> job, provided the sequence is
  admissible: a job is scheduled for a pair (by \<open>schedule_job\<close>, or by a
  \<open>set_assignment\<close> that creates or changes an assignment to \<open>install\<close> or \<open>uninstall\<close>)
  only while that pair has no job in flight, and no \<open>start\<close> event and no \<open>completed\<close>
  event with status \<open>Pending\<close> or \<open>InProgress\<close> is applied to a job that is not in flight.
  The store checks neither condition.
\<close>

theorem at_most_one_job_in_flight:
  "admissible_run empty_db xs \<Longrightarrow> length (in_flight (run empty_db (take n xs)) cid pid) \<le> 1"
  using admissible_run_keeps_invariant[of empty_db xs n] by (simp add: in_flight_def empty_db_def)

theorem at_most_one_job_in_flight_witness:
  "admissible_run empty_db (install_cycle @ [Set_Assignment ''t4'' 1 1 ''uninstall'']) \<and>
   length (in_flight (run empty_db (take 4 (install_cycle @ [Set_Assignment ''t4'' 1 1 ''uninstall''])))
            1 1) \<le> 1"
proof -
  have adm: "admissible_run empty_db (install_cycle @ [Set_Assignment ''t4'' 1 1 ''uninstall''])"
    by (simp add: install_cycle_def empty_db_def set_assignment_def schedule_job_def
        lastrowid_Nil update_job_status_def store_after_def bindable_def sqlite_integer_def
        final_status_def in_flight_def non_terminal_def schedules_def actionable_def)
  from at_most_one_job_in_flight[OF adm, of 4 1 1] adm show ?thesis by simp
qed

text \<open>
  The claim as stated fails: from the empty store, assigning a package for installation and
  then changing the assignment to \<open>uninstall\<close> leaves two \<open>Pending\<close> jobs for the pair.
\<close>

theorem two_pending_jobs_for_one_pair:
  "map j_status
     (in_flight (run empty_db [Set_Assignment ''t1'' 1 1 ''install'',
                               Set_Assignment ''t2'' 1 1 ''uninstall'']) 1 1) =
     [''Pending'', ''Pending'']"
  by (simp add: empty_db_def set_assignment_def schedule_job_def lastrowid_def in_flight_def
      non_terminal_def)

section \<open>The ledger (claim C10)\<close>

text \<open>
  Claim C10. If the ledger holds at most one row per package id, it still does after
  \<open>update_installed\<close>. When a row for the package id exists, the table keeps its rows and
  their ids and package ids, and that row now holds the given version, status, time and
  result code; when none exists, one row for the package id is appended and nothing else
  changes.
\<close>

theorem update_installed_one_row_per_package:
  "distinct (map ip_package_id rows) \<longrightarrow>
     distinct (map ip_package_id (update_installed rows now pid name version status rc)) \<and>
     (\<forall>row. get_installed rows pid = Some row \<longrightarrow>
        map ip_id (update_installed rows now pid name version status rc) = map ip_id rows \<and>
        map ip_package_id (update_installed rows now pid name version status rc) =
          map ip_package_id rows \<and>
        get_installed (update_installed rows now pid name version status rc) pid =
          Some (row\<lparr>ip_version := version, ip_status := status, ip_last_action := now,
                     ip_last_rc := rc\<rparr>)) \<and>
     (get_installed rows pid = None \<longrightarrow>
        update_installed rows now pid name version status rc =
          rows @ [\<lparr>ip_id = lastrowid (map ip_id rows), ip_package_id = pid, ip_name = name,
                    ip_version = version, ip_status = status, ip_last_action = now,
                    ip_last_rc = rc\<rparr>])"
proof (intro impI conjI allI)
  let ?f = "\<lambda>r. if ip_package_id r = pid
                 then r\<lparr>ip_version := version, ip_status := status,
                        ip_last_action := now, ip_last_rc := rc\<rparr>
                 else r"
  have keys: "map ip_package_id (map ?f rows) = map ip_package_id rows" by simp
  have ids: "map ip_id (map ?f rows) = map ip_id rows" by simp
  have found: "find (\<lambda>r. ip_package_id r = pid) (map ?f rows) =
                 map_option ?f (find (\<lambda>r. ip_package_id r = pid) rows)"
    by (rule find_map_key) simp
  {
    assume d: "distinct (map ip_package_id rows)"
    show "distinct (map ip_package_id (update_installed rows now pid name version status rc))"
    proof (cases "find (\<lambda>r. ip_package_id r = pid) rows")
      case None
      then have "pid \<notin> ip_package_id ` set rows" by (auto simp: find_None_iff)
      with d None show ?thesis by (simp add: update_installed_def)
    next
      case (Some row)
      then have "update_installed rows now pid name version status rc = map ?f rows"
        by (simp add: update_installed_def)
      with keys have "map ip_package_id (update_installed rows now pid name version status rc) =
          map ip_package_id rows"
        by (simp only:)
      with d show ?thesis by (simp only:)
    qed
  }
  {
    fix row assume g: "get_installed rows pid = Some row"
    then have upd: "update_installed rows now pid name version status rc = map ?f rows"
      by (simp add: update_installed_def get_installed_def)
    from g have "ip_package_id row = pid" by (auto simp: get_installed_def find_Some_iff)
    with g found
    have "get_installed (map ?f rows) pid =
          Some (row\<lparr>ip_version := version, ip_status := status, ip_last_action := now,
                     ip_last_rc := rc\<rparr>)"
      by (simp add: get_installed_def)
    with upd ids keys
    show "map ip_id (update_installed rows now pid name version status rc) = map ip_id rows"
      "map ip_package_id (update_installed rows now pid name version status rc) =
          map ip_package_id rows"
      "get_installed (update_installed rows now pid name version status rc) pid =
          Some (row\<lparr>ip_version := version, ip_status := status, ip_last_action := now,
                     ip_last_rc := rc\<rparr>)"
      by simp_all
  }
  {
    assume "get_installed rows pid = None"
    then show "update_installed rows now pid name version status rc =
          rows @ [\<lparr>ip_id = lastrowid (map ip_id rows), ip_package_id = pid, ip_name = name,
                    ip_version = version, ip_status = status, ip_last_action = now,
                    ip_last_rc = rc\<rparr>]"
      by (simp add: update_installed_def get_installed_def)
  }
qed

theorem update_installed_one_row_per_package_witness:
  "distinct (map ip_package_id [p_installed]) \<and>
   get_installed [p_installed] 1 = Some p_installed \<and>
   update_installed [p_installed] ''t6'' 1 ''P'' ''1.0'' ''uninstalled'' 0 =
     [p_installed\<lparr>ip_status := ''uninstalled'', ip_last_action := ''t6''\<rparr>] \<and>
   get_installed [p_installed] 2 = None \<and>
   map ip_package_id (update_installed [p_installed] ''t6'' 2 ''Q'' ''3'' ''installed'' 0) = [1, 2]"
proof -
  have d: "distinct (map ip_package_id [p_installed])" by simp
  have g1: "get_installed [p_installed] 1 = Some p_installed"
    by (simp add: get_installed_def p_installed_def)
  have g2: "get_installed [p_installed] 2 = None"
    by (simp add: get_installed_def p_installed_def)
  from update_installed_one_row_per_package
         [of "[p_installed]" "''t6''" 2 "''Q''" "''3''" "''installed''" 0] d g2
  have "update_installed [p_installed] ''t6'' 2 ''Q'' ''3'' ''installed'' 0 =
          [p_installed] @ [\<lparr>ip_id = lastrowid (map ip_id [p_installed]), ip_package_id = 2,
             ip_name = ''Q'', ip_version = ''3'', ip_status = ''installed'',
             ip_last_action = ''t6'', ip_last_rc = 0\<rparr>]"
    by blast
  then have new: "map ip_package_id (update_installed [p_installed] ''t6'' 2 ''Q'' ''3''
      ''installed'' 0) = [1, 2]"
    by (simp add: p_installed_def)
  have "update_installed [p_installed] ''t6'' 1 ''P'' ''1.0'' ''uninstalled'' 0 =
     [p_installed\<lparr>ip_status := ''uninstalled'', ip_last_action := ''t6''\<rparr>]"
    by (simp add: update_installed_def p_installed_def)
  with d g1 g2 new show ?thesis by simp
qed

section \<open>The agent's ledger check and pipeline (claims C4, C5, C6 and C8)\<close>

lemma post_job_event_frame:
  "ran (snd (post_job_event env cfg s j ev)) = ran s \<and>
   ledger (snd (post_job_event env cfg s j ev)) = ledger s"
  by (simp add: post_job_event_def split: prod.splits option.splits)

lemma post_if_job_frame:
  "ran (snd (post_if_job env cfg s job_id ev)) = ran s \<and>
   ledger (snd (post_if_job env cfg s job_id ev)) = ledger s"
  by (cases job_id) (simp_all add: post_if_job_def post_job_event_frame)

lemma post_if_job_delivered:
  assumes "enrolled cfg" "fst (io_post env (world s) j ev) = None"
  shows "fst (post_if_job env cfg s (Some j) ev) = None \<and>
         posted (snd (post_if_job env cfg s (Some j) ev)) = posted s @ [(j, ev)]"
  using assms
  by (cases "io_post env (world s) j ev") (auto simp: post_if_job_def post_job_event_def)

lemma post_if_no_job: "post_if_job env cfg s None ev = (None, s)"
  by (simp add: post_if_job_def)

lemma already_converged_iff:
  "already_converged rows a \<longleftrightarrow>
     (pa_action a = ''install'' \<and>
        (\<exists>l. get_installed rows (pk_id (pa_package a)) = Some l \<and>
             ip_version l = pk_version (pa_package a) \<and> ip_status l = ''installed'')) \<or>
     (pa_action a = ''uninstall'' \<and>
        (get_installed rows (pk_id (pa_package a)) = None \<or>
         (\<exists>l. get_installed rows (pk_id (pa_package a)) = Some l \<and>
              ip_status l \<noteq> ''installed'')))"
  by (auto simp: already_converged_def Let_def split: option.splits)

text \<open>
  Claim C4, as the code has it. For a plan entry with action \<open>install\<close> whose ledger row
  shows the target version with status \<open>installed\<close>, and for a plan entry with action
  \<open>uninstall\<close> whose package has no ledger row or a row whose status is not \<open>installed\<close>,
  the agent does nothing but hand the synthetic \<open>completed\<close> event (status \<open>Succeeded\<close>,
  result code 0) to \<open>post_job_event\<close>, and only when the entry carries a job id: no
  command is run, the ledger is unchanged, an entry without a job id is passed over with
  no report at all, and for an entry with a job id whose post goes through that event is
  the one thing reported.
\<close>

theorem converged_entry_runs_nothing:
  assumes "(pa_action a = ''install'' \<and>
              (\<exists>l. get_installed (ledger s) (pk_id (pa_package a)) = Some l \<and>
                   ip_version l = pk_version (pa_package a) \<and> ip_status l = ''installed'')) \<or>
           (pa_action a = ''uninstall'' \<and>
              (get_installed (ledger s) (pk_id (pa_package a)) = None \<or>
               (\<exists>l. get_installed (ledger s) (pk_id (pa_package a)) = Some l \<and>
                    ip_status l \<noteq> ''installed'')))"
  shows "process_assignment env cfg s a =
           post_if_job env cfg s (pa_job_id a) (skipped_event (pa_action a)) \<and>
         ev_phase (skipped_event (pa_action a)) = ''completed'' \<and>
         ev_status (skipped_event (pa_action a)) = Some ''Succeeded'' \<and>
         ev_rc (skipped_event (pa_action a)) = Some 0 \<and>
         ran (snd (process_assignment env cfg s a)) = ran s \<and>
         ledger (snd (process_assignment env cfg s a)) = ledger s \<and>
         (pa_job_id a = None \<longrightarrow> process_assignment env cfg s a = (None, s)) \<and>
         (\<forall>j. pa_job_id a = Some j \<and> enrolled cfg \<and>
               fst (io_post env (world s) j (skipped_event (pa_action a))) = None \<longrightarrow>
            fst (process_assignment env cfg s a) = None \<and>
            posted (snd (process_assignment env cfg s a)) =
              posted s @ [(j, skipped_event (pa_action a))])"
proof -
  from assms have "already_converged (ledger s) a" by (simp only: already_converged_iff)
  then have e: "process_assignment env cfg s a =
      post_if_job env cfg s (pa_job_id a) (skipped_event (pa_action a))"
    by (simp add: process_assignment_def Let_def)
  show ?thesis
    unfolding e
    by (auto simp: post_if_job_frame post_if_no_job post_if_job_delivered skipped_event_def)
qed

lemma p_installed_found:
  "get_installed [p_installed] 1 = Some p_installed"
  "get_installed [p_installed] (Suc 0) = Some p_installed"
  by (simp_all add: get_installed_def p_installed_def)

theorem converged_entry_runs_nothing_witness:
  "pa_action (install_p (Some 7) pkg_p) = ''install'' \<and>
   get_installed (ledger converged_agent) (pk_id (pa_package (install_p (Some 7) pkg_p))) =
     Some p_installed \<and>
   process_assignment host host_cfg converged_agent (install_p (Some 7) pkg_p) =
     (None, converged_agent\<lparr>posted := [(7, skipped_event ''install'')]\<rparr>)"
proof -
  have l: "get_installed (ledger converged_agent) (pk_id (pa_package (install_p (Some 7) pkg_p)))
      = Some p_installed"
    by (simp add: converged_agent_def install_p_def pkg_p_def p_installed_found)
  have a: "pa_action (install_p (Some 7) pkg_p) = ''install''"
    by (simp add: install_p_def)
  have v: "ip_version p_installed = pk_version (pa_package (install_p (Some 7) pkg_p)) \<and>
      ip_status p_installed = ''installed''"
    by (simp add: p_installed_def install_p_def pkg_p_def)
  from converged_entry_runs_nothing[of "install_p (Some 7) pkg_p" converged_agent host host_cfg]
    a l v
  have "process_assignment host host_cfg converged_agent (install_p (Some 7) pkg_p) =
      post_if_job host host_cfg converged_agent (pa_job_id (install_p (Some 7) pkg_p))
        (skipped_event (pa_action (install_p (Some 7) pkg_p)))"
    by blast
  then have "process_assignment host host_cfg converged_agent (install_p (Some 7) pkg_p) =
     (None, converged_agent\<lparr>posted := [(7, skipped_event ''install'')]\<rparr>)"
    by (simp add: install_p_def post_if_job_def post_job_event_def enrolled_def host_cfg_def
        host_def converged_agent_def)
  with a l show ?thesis by simp
qed

text \<open>
  The claim as stated fails: the entry below is an install of a package that the ledger
  shows installed at the target version, it carries no job id (as the plan of a converged
  assignment does), and the agent reports nothing for it.
\<close>

theorem converged_entry_without_job_reports_nothing:
  "pa_action (install_p None pkg_p) = ''install'' \<and>
   get_installed (ledger converged_agent) (pk_id (pa_package (install_p None pkg_p))) =
     Some p_installed \<and>
   ip_version p_installed = pk_version (pa_package (install_p None pkg_p)) \<and>
   ip_status p_installed = ''installed'' \<and>
   posted (snd (process_assignment host host_cfg converged_agent (install_p None pkg_p))) = []"
  by (simp add: process_assignment_def already_converged_def install_p_def pkg_p_def
      converged_agent_def p_installed_found post_if_no_job)
     (simp add: p_installed_def post_if_no_job)

lemma process_assignment_pipeline:
  assumes "\<not> already_converged (ledger s) a"
      and "post_if_job env cfg s (pa_job_id a) start_event = (None, s1)"
      and "perform_action env s1 a (pa_action a) = (outcome, s2)"
      and "(case outcome of Inl e \<Rightarrow> (1, [], e) | Inr r \<Rightarrow> r) = (rc, out, err)"
  shows "process_assignment env cfg s a =
           post_if_job env cfg (record_outcome env s2 a rc) (pa_job_id a)
             (completed_event (classify (pa_package a) rc) rc out err)"
  using assms by (simp add: process_assignment_def Let_def)

lemma perform_action_early:
  "prepare_command env s a action = (Inl early, s2) \<Longrightarrow>
   perform_action env s a action = (early, s2)"
  by (simp add: perform_action_def)



lemma classify_one:
  "classify pkg 1 = (if 1 \<in> set (pk_expected_exit_codes pkg) then ''Succeeded'' else ''Failed'')"
  by (simp add: classify_def ok_codes_def)


lemma fetch_artifact_download_failed:
  assumes "pk_download_url pkg \<noteq> []"
      and "io_exists env (world s) path = Inr False"
      and "io_download env (world s) (pk_download_url pkg) path = (Some e, w1)"
  shows "fetch_artifact env s pkg path =
           (Some (Inr (1, [], ''Download failed: '' @ e)), s\<lparr>world := w1\<rparr>)"
  using assms by (simp add: fetch_artifact_def)


lemma prepare_command_no_command:
  assumes "io_mkdir env (world s) = (None, w0)"
      and "fetch_artifact env (s\<lparr>world := w0\<rparr>) (pa_package a)
             (io_cache_path env
                (''pkg_'' @ decimal (pk_id (pa_package a)) @ ''_'' @ pk_version (pa_package a)))
           = (None, s1)"
      and "pk_precheck_cmd (pa_package a) = []"
      and "(if action = ''install'' then pk_install_cmd (pa_package a)
            else pk_uninstall_cmd (pa_package a)) = []"
  shows "prepare_command env s a action = (Inl (Inr (1, [], ''No command defined'')), s1)"
  using assms by (simp add: prepare_command_def build_command_def Let_def)

lemma prepare_command_mkdir_raises:
  "io_mkdir env (world s) = (Some e, w0) \<Longrightarrow>
   prepare_command env s a action = (Inl (Inl e), s\<lparr>world := w0\<rparr>)"
  by (simp add: prepare_command_def Let_def)

lemma fetch_artifact_hash_raises:
  assumes "pk_download_url pkg \<noteq> []"
      and "io_exists env (world s) path = Inr present"
      and "(present \<and> w1 = world s) \<or>
           (\<not> present \<and> io_download env (world s) (pk_download_url pkg) path = (None, w1))"
      and "pk_sha256 pkg \<noteq> []"
      and "io_sha256 env w1 path = Inl e"
  shows "fetch_artifact env s pkg path = (Some (Inl e), s\<lparr>world := w1\<rparr>)"
  using assms by (auto simp: fetch_artifact_def verify_sha256_def)

lemma build_command_format_raises:
  assumes "(if action = ''install'' then pk_install_cmd pkg else pk_uninstall_cmd pkg) = base"
      and "base \<noteq> []"
      and "py_format env base path = Inl e"
  shows "build_command env pkg action path = Inl (Inl e)"
  using assms by (auto simp: build_command_def Let_def)

lemma fetch_artifact_ran: "ran (snd (fetch_artifact env s pkg path)) = ran s"
  by (simp add: fetch_artifact_def split: sum.splits prod.splits option.splits)

lemma run_subprocess_ran: "ran (snd (run_subprocess env s cmd)) = ran s @ [cmd]"
  by (simp add: run_subprocess_def split: sum.splits prod.splits)

lemma prepare_command_ran:
  "ran (snd (prepare_command env s a action)) = ran s \<or>
   ran (snd (prepare_command env s a action)) = ran s @ [pk_precheck_cmd (pa_package a)]"
proof (cases "io_mkdir env (world s)")
  case (Pair x w0)
  let ?path = "io_cache_path env
        (''pkg_'' @ decimal (pk_id (pa_package a)) @ ''_'' @ pk_version (pa_package a))"
  show ?thesis
  proof (cases x)
    case (Some e)
    with Pair show ?thesis by (simp add: prepare_command_def Let_def)
  next
    case None
    obtain early s1 where f: "fetch_artifact env (s\<lparr>world := w0\<rparr>) (pa_package a) ?path
        = (early, s1)"
      by (cases "fetch_artifact env (s\<lparr>world := w0\<rparr>) (pa_package a) ?path")
    from fetch_artifact_ran[of env "s\<lparr>world := w0\<rparr>" "pa_package a" ?path] f
    have r1: "ran s1 = ran s" by simp
    show ?thesis
    proof (cases early)
      case (Some x)
      with Pair None f r1 show ?thesis by (simp add: prepare_command_def Let_def)
    next
      case N: None
      show ?thesis
      proof (cases "pk_precheck_cmd (pa_package a) = []")
        case True
        with Pair None f r1 N show ?thesis by (simp add: prepare_command_def Let_def)
      next
        case False
        obtain r s2 where p: "run_subprocess env s1 (pk_precheck_cmd (pa_package a)) = (r, s2)"
          by (cases "run_subprocess env s1 (pk_precheck_cmd (pa_package a))")
        from run_subprocess_ran[of env s1 "pk_precheck_cmd (pa_package a)"] p r1
        have "ran s2 = ran s @ [pk_precheck_cmd (pa_package a)]" by simp
        with Pair None f N False p show ?thesis
          by (simp add: prepare_command_def Let_def split: prod.splits)
      qed
    qed
  qed
qed


lemmas host_simps =
  host_def host_cfg_def fresh_agent_def started_agent_def install_p_def pkg_p_def

lemma host_start:
  "post_if_job host host_cfg fresh_agent (Some 7) start_event = (None, started_agent)"
  by (simp add: post_if_job_def post_job_event_def enrolled_def host_simps)

lemma fresh_agent_needed: "\<not> already_converged (ledger fresh_agent) (install_p job_id pkg)"
  by (simp add: already_converged_def get_installed_def fresh_agent_def install_p_def)







text \<open>
  Claim C8. Take a package whose expected exit codes contain 1 and a plan entry for it,
  with action \<open>install\<close> or \<open>uninstall\<close>, that the ledger check lets through and whose start event is
  posted. If the pipeline stops before the action command with result code 1 or with an
  exception (\<open>main\<close> turns a caught exception into result code 1), the completion handed to
  \<open>post_job_event\<close> is \<open>Succeeded\<close> with result code 1, and the ledger row of the package
  is written as \<open>installed\<close> (for \<open>install\<close>) or \<open>uninstalled\<close> (for \<open>uninstall\<close>); no
  command was run except, possibly, the pre-check. The pipeline stops in this way on a
  failed download (\<open>fetch_artifact_download_failed\<close>), on a checksum mismatch
  (\<open>fetch_artifact_checksum_mismatch\<close>), on a missing command template
  (\<open>prepare_command_no_command\<close>) and on an exception (\<open>prepare_command_mkdir_raises\<close>,
  \<open>fetch_artifact_hash_raises\<close>, \<open>build_command_format_raises\<close>).
\<close>

theorem internal_failure_counts_as_success:
  assumes codes: "1 \<in> set (pk_expected_exit_codes (pa_package a))"
      and action: "pa_action a = ''install'' \<or> pa_action a = ''uninstall''"
      and needed: "\<not> already_converged (ledger s) a"
      and start: "post_if_job env cfg s (pa_job_id a) start_event = (None, s1)"
      and stopped: "prepare_command env s1 a (pa_action a) = (Inl early, s2)"
      and code1: "(case early of Inl e \<Rightarrow> (1, [], e) | Inr r \<Rightarrow> r) = (1, out, err)"
  shows "process_assignment env cfg s a =
           post_if_job env cfg
             (s2\<lparr>ledger :=
                   update_installed (ledger s2) (io_now env (world s2)) (pk_id (pa_package a))
                     (pk_name (pa_package a)) (pk_version (pa_package a))
                     (if pa_action a = ''install'' then ''installed'' else ''uninstalled'') 1\<rparr>)
             (pa_job_id a) (completed_event ''Succeeded'' 1 out err) \<and>
         (ran (snd (process_assignment env cfg s a)) = ran s \<or>
          ran (snd (process_assignment env cfg s a)) =
            ran s @ [pk_precheck_cmd (pa_package a)])"
proof -
  have "perform_action env s1 a (pa_action a) = (early, s2)"
    using stopped by (rule perform_action_early)
  from process_assignment_pipeline[OF needed start this code1]
  have e: "process_assignment env cfg s a =
      post_if_job env cfg (record_outcome env s2 a 1) (pa_job_id a)
        (completed_event (classify (pa_package a) 1) 1 out err)" .
  have ok: "classify (pa_package a) 1 = ''Succeeded''"
    using codes by (simp add: classify_one)
  have rec: "record_outcome env s2 a 1 =
      s2\<lparr>ledger :=
            update_installed (ledger s2) (io_now env (world s2)) (pk_id (pa_package a))
              (pk_name (pa_package a)) (pk_version (pa_package a))
              (if pa_action a = ''install'' then ''installed'' else ''uninstalled'') 1\<rparr>"
    using action ok by (auto simp: record_outcome_def Let_def)
  have "ran s1 = ran s"
    using post_if_job_frame[of env cfg s "pa_job_id a" start_event] start by simp
  moreover have "ran s2 = ran s1 \<or> ran s2 = ran s1 @ [pk_precheck_cmd (pa_package a)]"
    using prepare_command_ran[of env s1 a "pa_action a"] stopped by simp
  ultimately have "ran s2 = ran s \<or> ran s2 = ran s @ [pk_precheck_cmd (pa_package a)]"
    by simp
  then show ?thesis
    unfolding e ok rec by (simp add: post_if_job_frame)
qed

theorem internal_failure_counts_as_success_witness:
  "prepare_command host started_agent (install_p (Some 7) pkg_no_command) ''install'' =
     (Inl (Inr (1, [], ''No command defined'')), started_agent) \<and>
   process_assignment host host_cfg fresh_agent (install_p (Some 7) pkg_no_command) =
     (None,
      \<lparr>world = (),
       ledger = [\<lparr>ip_id = 1, ip_package_id = 1, ip_name = ''P'', ip_version = ''1.0'',
                  ip_status = ''installed'', ip_last_action = ''t5'', ip_last_rc = 1\<rparr>],
       posted = [(7, start_event),
                 (7, completed_event ''Succeeded'' 1 [] ''No command defined'')],
       ran = []\<rparr>)"
proof -
  let ?a = "install_p (Some 7) pkg_no_command"
  have codes: "1 \<in> set (pk_expected_exit_codes (pa_package ?a))"
    by (simp add: host_simps pkg_no_command_def)
  have action: "pa_action ?a = ''install'' \<or> pa_action ?a = ''uninstall''"
    by (simp add: install_p_def)
  have start: "post_if_job host host_cfg fresh_agent (pa_job_id ?a) start_event =
      (None, started_agent)"
    using host_start by (simp add: install_p_def)
  have fetched: "fetch_artifact host (started_agent\<lparr>world := ()\<rparr>) (pa_package ?a)
             (io_cache_path host
                (''pkg_'' @ decimal (pk_id (pa_package ?a)) @ ''_'' @ pk_version (pa_package ?a)))
           = (None, started_agent)"
    by (simp add: fetch_artifact_def host_simps pkg_no_command_def)
  have stopped': "prepare_command host started_agent ?a ''install'' =
      (Inl (Inr (1, [], ''No command defined'')), started_agent)"
    by (rule prepare_command_no_command[OF _ fetched]) (simp_all add: host_simps pkg_no_command_def)
  then have stopped: "prepare_command host started_agent ?a (pa_action ?a) =
      (Inl (Inr (1, [], ''No command defined'')), started_agent)"
    by (simp add: install_p_def)
  have code1: "(case (Inr (1, [], ''No command defined'') :: string + result) of
                  Inl e \<Rightarrow> (1, [], e) | Inr r \<Rightarrow> r) = (1, [], ''No command defined'')"
    by simp
  from internal_failure_counts_as_success[OF codes action fresh_agent_needed start stopped code1]
  have "process_assignment host host_cfg fresh_agent ?a =
           post_if_job host host_cfg
             (started_agent\<lparr>ledger :=
                   update_installed (ledger started_agent) (io_now host (world started_agent))
                     (pk_id (pa_package ?a)) (pk_name (pa_package ?a))
                     (pk_version (pa_package ?a))
                     (if pa_action ?a = ''install'' then ''installed'' else ''uninstalled'') 1\<rparr>)
             (pa_job_id ?a) (completed_event ''Succeeded'' 1 [] ''No command defined'')"
    by blast
  then have "process_assignment host host_cfg fresh_agent ?a =
     (None,
      \<lparr>world = (),
       ledger = [\<lparr>ip_id = 1, ip_package_id = 1, ip_name = ''P'', ip_version = ''1.0'',
                  ip_status = ''installed'', ip_last_action = ''t5'', ip_last_rc = 1\<rparr>],
       posted = [(7, start_event),
                 (7, completed_event ''Succeeded'' 1 [] ''No command defined'')],
       ran = []\<rparr>)"
    by (simp add: post_if_job_def post_job_event_def enrolled_def update_installed_def
        lastrowid_Nil host_simps pkg_no_command_def)
  with stopped' show ?thesis by simp
qed

end
